theory Spec2Isabelle
  imports Complex_Main
begin

section \<open>The Migrator component of the DAO creation wizard\<close>

text \<open>
  The component modelled here is \<^verbatim>\<open>Migrator\<close>, the second document of
  \<^verbatim>\<open>packages/ui_v2/src/components/commonV2/dao/VotingMachineEditor.tsx\<close>: a React
  function component that keeps its data in \<^verbatim>\<open>useState\<close> hooks, starts the deployment
  of a DAO through \<^verbatim>\<open>migrateDAO\<close> and hands the migration library a bundle of callbacks.

  The embedding is by explicit state passing. A configuration is a pair of
  \<^item> the component's own state (one field per \<^verbatim>\<open>useState\<close> hook), and
  \<^item> the world around it: the browser globals that the code touches (\<^verbatim>\<open>console\<close>,
    \<^verbatim>\<open>window.onbeforeunload\<close>, \<^verbatim>\<open>localStorage\<close>, \<^verbatim>\<open>JSON\<close>), the trace of the calls
    made to the host through the props \<^verbatim>\<open>onStart\<close>, \<^verbatim>\<open>onComplete\<close>, \<^verbatim>\<open>onAbort\<close>,
    \<^verbatim>\<open>onStop\<close>, and the trace of the calls made to \<^verbatim>\<open>migrateDAO\<close>.

  Every synchronous piece of code runs to its end on the single event loop before the
  next one starts, and the state setters of one piece are applied in the order they are
  called. The handler \<^verbatim>\<open>startInstallation\<close> is asynchronous: it tests \<^verbatim>\<open>step\<close>, calls
  \<^verbatim>\<open>getWeb3\<close> and is suspended at the \<^verbatim>\<open>await\<close>; the rest of its body runs when the
  promise settles, after whatever happened in between, and does not test \<^verbatim>\<open>step\<close>
  again. The model has the two pieces as two functions and two events, and keeps the
  suspended calls in the world. A button press reads the \<^verbatim>\<open>step\<close> of the render that
  made its handler, which is the current state.

  The double arithmetic of JavaScript is not interpreted: a sum of two numbers is kept
  as the sum it is (see \<open>number\<close> below).
\<close>

subsection \<open>Data\<close>

text \<open>\<^verbatim>\<open>enum STEP { Waiting, Migrating, Completed, Failed }\<close>, a numeric enum.\<close>

datatype STEP = Waiting | Migrating | Completed | Failed

fun STEP_number :: "STEP \<Rightarrow> nat" where
  "STEP_number Waiting = 0"
| "STEP_number Migrating = 1"
| "STEP_number Completed = 2"
| "STEP_number Failed = 3"

text \<open>A JavaScript \<^verbatim>\<open>Error\<close> (by its message), and the values that the component only
  passes through: the deployment parameters, the deployment result, the web3 instance.\<close>

type_synonym Error = string
type_synonym DAOMigrationParams = string
type_synonym DAOMigrationResult = string
type_synonym Web3 = string

text \<open>
  A JavaScript number: a value given to the component (a finite one, \<^verbatim>\<open>NaN\<close> or an
  infinity), or the result of the platform's \<^verbatim>\<open>+\<close> on two numbers. The rounding, the
  overflow and the \<^verbatim>\<open>NaN\<close> rules of that \<^verbatim>\<open>+\<close> are not modelled, so \<open>Added x y\<close> stands
  for whatever double the platform computes from \<open>x\<close> and \<open>y\<close>; equal terms stand for
  equal doubles.
\<close>

datatype number = Finite real | NaN | Infinity | MinusInfinity | Added number number

text \<open>JSON values: what \<^verbatim>\<open>JSON.parse\<close> returns and what the state objects \<^verbatim>\<open>{}\<close> are.\<close>

datatype json =
    JNull
  | JBool bool
  | JNumber real
  | JString string
  | JArray "json list"
  | JObject "(string \<times> json) list"

text \<open>
  The log line classes imported from \<^verbatim>\<open>./LogLineTypes\<close>, by their constructor calls in
  the component. The resolver held by a \<^verbatim>\<open>LogUserApproval\<close> is the resolve function of
  the promise that \<^verbatim>\<open>userApproval\<close> creates; it is represented by the number of that
  promise.
\<close>

datatype AnyLogLine =
    LogUserApproval string nat
  | LogInfo string
  | LogError string
  | LogTransactionResult string string number
  | LogMigrationAborted Error

text \<open>The hooks of the component, in the order of their declaration.\<close>

record Migrator_state =
  step :: STEP
  txList :: json
  noWeb3Open :: bool
  fullLogLines :: "AnyLogLine list"
  minimalLogLines :: "AnyLogLine list"
  ethSpent :: number
  result :: "DAOMigrationResult option"
  state :: json

definition initial_state :: Migrator_state where
  "initial_state =
     \<lparr>step = Waiting, txList = JObject [], noWeb3Open = False, fullLogLines = [],
      minimalLogLines = [], ethSpent = Finite 0, result = None, state = JObject []\<rparr>"

text \<open>What \<^verbatim>\<open>console.log\<close> is given: a text, a log line object, or a caught exception.\<close>

datatype console_entry =
    ConsoleText string
  | ConsoleLogLine AnyLogLine
  | ConsoleError Error

text \<open>
  \<^verbatim>\<open>window.onbeforeunload\<close>: no handler, or a handler with the value it returns
  (\<open>None\<close> for \<^verbatim>\<open>undefined\<close>). The browser asks before leaving the page exactly when a
  handler is installed and returns a text.
\<close>

datatype unload_handler = NoHandler | Handler "string option"

fun leave_page_guard :: "unload_handler \<Rightarrow> bool" where
  "leave_page_guard (Handler (Some msg)) = True"
| "leave_page_guard (Handler None) = False"
| "leave_page_guard NoHandler = False"

text \<open>The calls of the props, as the host sees them.\<close>

datatype host_call =
    OnStart
  | OnComplete DAOMigrationResult
  | OnAbort Error
  | OnStop

text \<open>
  The world. \<^verbatim>\<open>JSON.stringify\<close> and \<^verbatim>\<open>JSON.parse\<close> belong to the platform and are
  taken as they come with the world (\<^verbatim>\<open>JSON.parse\<close> throws on a text that is not JSON).
  \<open>engine\<close> lists the \<^verbatim>\<open>dao\<close> argument of every call of \<^verbatim>\<open>migrateDAO\<close>; the second
  argument is always the bundle built by \<^verbatim>\<open>getCallbacks\<close>. \<open>approvals\<close> counts the
  promises created by \<^verbatim>\<open>userApproval\<close>. \<open>suspended\<close> lists the calls of
  \<^verbatim>\<open>startInstallation\<close> that wait at \<^verbatim>\<open>await getWeb3()\<close>, each by the \<^verbatim>\<open>dao\<close> prop its
  closure holds.
\<close>

record World =
  console :: "console_entry list"
  onbeforeunload :: unload_handler
  localStorage :: "string \<rightharpoonup> string"
  JSON_stringify :: "json \<Rightarrow> string"
  JSON_parse :: "string \<Rightarrow> Error + json"
  host :: "host_call list"
  engine :: "DAOMigrationParams list"
  approvals :: nat
  suspended :: "DAOMigrationParams list"

type_synonym config = "Migrator_state \<times> World"

text \<open>The outcome of \<^verbatim>\<open>await getWeb3()\<close>: it throws, or it resolves to a web3 instance
  or to a falsy value (\<open>None\<close>).\<close>

datatype getWeb3_outcome = Web3Rejected Error | Web3Resolved "Web3 option"

definition console_log :: "console_entry \<Rightarrow> World \<Rightarrow> World" where
  "console_log entry w = w\<lparr>console := console w @ [entry]\<rparr>"

subsection \<open>Reset and next step\<close>

definition resetState :: "config \<Rightarrow> config" where
  "resetState c =
     (let (s, w) = c;
          s1 = s\<lparr>step := Waiting\<rparr>;
          s2 = s1\<lparr>txList := JObject []\<rparr>;
          s3 = s2\<lparr>noWeb3Open := False\<rparr>
      in (s3, w))"

text \<open>
  \<^verbatim>\<open>step => step++\<close>: the post-increment rebinds the parameter to the next number and
  has the old value of the parameter as its own value, which is what the updater returns.
  The pair is (value of the expression, new value of the parameter).
\<close>

definition post_increment :: "STEP \<Rightarrow> STEP \<times> nat" where
  "post_increment v = (v, STEP_number v + 1)"

definition nextStep :: "config \<Rightarrow> config" where
  "nextStep c =
     (let (s, w) = c;
          w1 = console_log (ConsoleText ''Go to next step'') w;
          s1 = s\<lparr>step := fst (post_increment (step s))\<rparr>
      in (s1, w1))"

subsection \<open>Start\<close>

text \<open>
  \<^verbatim>\<open>startInstallation\<close> up to its \<^verbatim>\<open>await\<close> (l.131-141): the console message, the test
  of \<^verbatim>\<open>step\<close>, the call of \<^verbatim>\<open>getWeb3\<close>, at which the call is suspended.
\<close>

definition startInstallation :: "DAOMigrationParams \<Rightarrow> config \<Rightarrow> config" where
  "startInstallation dao c =
     (let (s, w) = c;
          w1 = console_log (ConsoleText ''Starting Installation'') w
      in if step s \<noteq> Waiting then (s, w1)
         else (s, w1\<lparr>suspended := suspended w1 @ [dao]\<rparr>))"

text \<open>
  \<^verbatim>\<open>startInstallation\<close> from the settling of the promise to its end (l.141-165), on the
  state of that moment. \<^verbatim>\<open>step\<close> is not read here.
\<close>

definition startInstallation_resumed ::
    "DAOMigrationParams \<Rightarrow> getWeb3_outcome \<Rightarrow> config \<Rightarrow> config" where
  "startInstallation_resumed dao outcome c =
     (let (s, w) = c;
          (web3, w2) =
             (case outcome of
                Web3Rejected e \<Rightarrow> (None, console_log (ConsoleError e) w)
              | Web3Resolved v \<Rightarrow> (v, w))
      in (case web3 of
            None \<Rightarrow> (s\<lparr>noWeb3Open := True\<rparr>, w2)
          | Some provider \<Rightarrow>
              let w3 = w2\<lparr>onbeforeunload := Handler (Some
                         ''Your migration is still in progress. Do you really want to leave?'')\<rparr>;
                  s1 = s\<lparr>fullLogLines := []\<rparr>;
                  s2 = s1\<lparr>minimalLogLines := []\<rparr>;
                  w4 = w3\<lparr>host := host w3 @ [OnStart]\<rparr>;
                  s3 = s2\<lparr>result := None\<rparr>;
                  s4 = s3\<lparr>step := Migrating\<rparr>;
                  w5 = w4\<lparr>engine := engine w4 @ [dao]\<rparr>
              in (s4, w5)))"

text \<open>
  The promise of the \<open>i\<close>-th suspended call settles: the call leaves the list and runs
  its rest. Nothing happens when there is no such call.
\<close>

definition resume :: "nat \<Rightarrow> getWeb3_outcome \<Rightarrow> config \<Rightarrow> config" where
  "resume i outcome c =
     (let (s, w) = c
      in if i < length (suspended w)
         then startInstallation_resumed (suspended w ! i) outcome
                (s, w\<lparr>suspended := take i (suspended w) @ drop (Suc i) (suspended w)\<rparr>)
         else c)"

subsection \<open>Callbacks\<close>

definition addLogLine :: "AnyLogLine \<Rightarrow> config \<Rightarrow> config" where
  "addLogLine logLine c = (let (s, w) = c in (s, console_log (ConsoleLogLine logLine) w))"

definition userApproval :: "string \<Rightarrow> config \<Rightarrow> config" where
  "userApproval msg c =
     (let (s, w) = c;
          promise = approvals w;
          w1 = w\<lparr>approvals := promise + 1\<rparr>
      in addLogLine (LogUserApproval msg promise) (s, w1))"

definition info :: "string \<Rightarrow> config \<Rightarrow> config" where
  "info msg c = addLogLine (LogInfo msg) c"

definition error :: "string \<Rightarrow> config \<Rightarrow> config" where
  "error msg c = addLogLine (LogError msg) c"

text \<open>\<^verbatim>\<open>ethSpent += Number(txCost)\<close>: \<^verbatim>\<open>Number\<close> of a number is that number, and the
  value of the assignment, which the updater returns, is the new sum.\<close>

definition txComplete :: "string \<Rightarrow> string \<Rightarrow> number \<Rightarrow> config \<Rightarrow> config" where
  "txComplete msg txHash txCost c =
     (let (s, w) = c;
          s1 = s\<lparr>ethSpent := Added (ethSpent s) txCost\<rparr>
      in addLogLine (LogTransactionResult msg txHash txCost) (s1, w))"

definition migrationAborted :: "Error \<Rightarrow> config \<Rightarrow> config" where
  "migrationAborted err c =
     (let (s, w) = addLogLine (LogMigrationAborted err) c;
          w1 = w\<lparr>host := host w @ [OnAbort err]\<rparr>;
          s1 = s\<lparr>step := Failed\<rparr>;
          w2 = w1\<lparr>host := host w1 @ [OnStop]\<rparr>
      in (s1, w2))"

definition migrationComplete :: "DAOMigrationResult \<Rightarrow> config \<Rightarrow> config" where
  "migrationComplete res c =
     (let (s, w) = c;
          w1 = w\<lparr>onbeforeunload := Handler None\<rparr>;
          s1 = s\<lparr>result := Some res\<rparr>;
          s2 = s1\<lparr>step := Completed\<rparr>;
          w2 = w1\<lparr>host := host w1 @ [OnComplete res]\<rparr>;
          w3 = w2\<lparr>host := host w2 @ [OnStop]\<rparr>
      in (s2, w3))"

definition DAO_MIGRATION_STATE :: string where
  "DAO_MIGRATION_STATE = ''DAO_MIGRATION_STATE''"

text \<open>\<^verbatim>\<open>if (localState)\<close> fails for \<^verbatim>\<open>null\<close> (no item) and for the empty text.\<close>

definition getState :: "config \<Rightarrow> Error + json" where
  "getState c =
     (let (s, w) = c in
      case localStorage w DAO_MIGRATION_STATE of
        None \<Rightarrow> Inr (JObject [])
      | Some localState \<Rightarrow>
          if localState \<noteq> [] then JSON_parse w localState else Inr (JObject []))"

definition setState :: "json \<Rightarrow> config \<Rightarrow> config" where
  "setState st c =
     (let (s, w) = c
      in (s, w\<lparr>localStorage := (localStorage w)(DAO_MIGRATION_STATE \<mapsto> JSON_stringify w st)\<rparr>))"

definition cleanState :: "config \<Rightarrow> config" where
  "cleanState c =
     (let (s, w) = c
      in (s, w\<lparr>localStorage := (localStorage w)(DAO_MIGRATION_STATE := None)\<rparr>))"

subsection \<open>Runs\<close>

text \<open>
  What can happen to a mounted component: the button is pressed (the \<^verbatim>\<open>dao\<close> prop is
  given with the press), the \<^verbatim>\<open>getWeb3\<close> promise of a suspended call settles,
  \<^verbatim>\<open>resetState\<close> or \<^verbatim>\<open>nextStep\<close> is called, or the migration library calls one of the
  callbacks of the bundle.
\<close>

datatype event =
    StartInstallation DAOMigrationParams
  | Web3Settled nat getWeb3_outcome
  | ResetState
  | NextStep
  | UserApproval string
  | Info string
  | Err string
  | TxComplete string string number
  | MigrationAborted Error
  | MigrationComplete DAOMigrationResult
  | GetState
  | SetState json
  | CleanState

fun apply_event :: "event \<Rightarrow> config \<Rightarrow> config" where
  "apply_event (StartInstallation dao) c = startInstallation dao c"
| "apply_event (Web3Settled i outcome) c = resume i outcome c"
| "apply_event ResetState c = resetState c"
| "apply_event NextStep c = nextStep c"
| "apply_event (UserApproval msg) c = userApproval msg c"
| "apply_event (Info msg) c = info msg c"
| "apply_event (Err msg) c = error msg c"
| "apply_event (TxComplete msg txHash txCost) c = txComplete msg txHash txCost c"
| "apply_event (MigrationAborted err) c = migrationAborted err c"
| "apply_event (MigrationComplete res) c = migrationComplete res c"
| "apply_event GetState c = c"
| "apply_event (SetState st) c = setState st c"
| "apply_event CleanState c = cleanState c"

fun run :: "event list \<Rightarrow> config \<Rightarrow> config" where
  "run [] c = c"
| "run (ev # evs) c = run evs (apply_event ev c)"

text \<open>
  A freshly loaded page, for the closed examples: nothing on the console, no unload
  handler, an empty storage, no call made yet or suspended. Its \<^verbatim>\<open>JSON\<close> object is tabulated on the
  three values the examples use.
\<close>

definition fresh_world :: World where
  "fresh_world =
     \<lparr>console = [], onbeforeunload = NoHandler, localStorage = Map.empty,
      JSON_stringify = (\<lambda>j. if j = JObject [] then ''{}''
                            else if j = JArray [JNumber 1, JNumber 2] then ''[1,2]''
                            else ''null''),
      JSON_parse = (\<lambda>t. if t = ''{}'' then Inr (JObject [])
                        else if t = ''[1,2]'' then Inr (JArray [JNumber 1, JNumber 2])
                        else if t = ''null'' then Inr JNull
                        else Inl ''SyntaxError''),
      host = [], engine = [], approvals = 0, suspended = []\<rparr>"

subsection \<open>Reading a run\<close>

text \<open>The costs reported by the \<^verbatim>\<open>txComplete\<close> calls of a run, in their order.\<close>

fun cost_of :: "event \<Rightarrow> number list" where
  "cost_of (TxComplete msg txHash txCost) = [txCost]"
| "cost_of ev = []"

definition tx_costs :: "event list \<Rightarrow> number list" where
  "tx_costs evs = concat (map cost_of evs)"

text \<open>
  The three callbacks that only report: a call of \<^verbatim>\<open>info\<close>, \<^verbatim>\<open>error\<close> or
  \<^verbatim>\<open>txComplete\<close>, the event it is, and the log line object it constructs.
\<close>

datatype report = ReportInfo string | ReportError string | ReportTx string string number

fun report_event :: "report \<Rightarrow> event" where
  "report_event (ReportInfo msg) = Info msg"
| "report_event (ReportError msg) = Err msg"
| "report_event (ReportTx msg txHash txCost) = TxComplete msg txHash txCost"

fun report_line :: "report \<Rightarrow> AnyLogLine" where
  "report_line (ReportInfo msg) = LogInfo msg"
| "report_line (ReportError msg) = LogError msg"
| "report_line (ReportTx msg txHash txCost) = LogTransactionResult msg txHash txCost"

text \<open>The events that resume a suspended call of \<^verbatim>\<open>startInstallation\<close>.\<close>

fun resumes :: "event \<Rightarrow> bool" where
  "resumes (Web3Settled i outcome) = True"
| "resumes ev = False"

section \<open>Properties\<close>

lemmas operation_defs =
  startInstallation_def startInstallation_resumed_def resume_def
  resetState_def nextStep_def post_increment_def console_log_def
  addLogLine_def userApproval_def info_def error_def txComplete_def
  migrationAborted_def migrationComplete_def setState_def cleanState_def

subsection \<open>The single operations\<close>

lemma startInstallation_not_Waiting:
  "step s \<noteq> Waiting \<Longrightarrow>
   startInstallation dao (s, w) =
     (s, w\<lparr>console := console w @ [ConsoleText ''Starting Installation'']\<rparr>)"
  by (simp add: startInstallation_def console_log_def)

lemma startInstallation_Waiting:
  "step s = Waiting \<Longrightarrow>
   startInstallation dao (s, w) =
     (s, w\<lparr>console := console w @ [ConsoleText ''Starting Installation''],
           suspended := suspended w @ [dao]\<rparr>)"
  by (simp add: startInstallation_def console_log_def)

lemma resumed_rejected:
  "startInstallation_resumed dao (Web3Rejected e) (s, w) =
     (s\<lparr>noWeb3Open := True\<rparr>, w\<lparr>console := console w @ [ConsoleError e]\<rparr>)"
  by (simp add: startInstallation_resumed_def console_log_def)

lemma resumed_falsy:
  "startInstallation_resumed dao (Web3Resolved None) (s, w) = (s\<lparr>noWeb3Open := True\<rparr>, w)"
  by (simp add: startInstallation_resumed_def)

lemma resumed_provider:
  "startInstallation_resumed dao (Web3Resolved (Some provider)) (s, w) =
     (s\<lparr>fullLogLines := [], minimalLogLines := [], result := None, step := Migrating\<rparr>,
      w\<lparr>onbeforeunload := Handler (Some
          ''Your migration is still in progress. Do you really want to leave?''),
        host := host w @ [OnStart],
        engine := engine w @ [dao]\<rparr>)"
  by (simp add: startInstallation_resumed_def)

lemma resume_last:
  "resume (length (suspended w)) outcome (s, w\<lparr>suspended := suspended w @ [dao]\<rparr>) =
     startInstallation_resumed dao outcome (s, w)"
  by (simp add: resume_def)

lemma resetState_eq:
  "resetState (s, w) = (s\<lparr>step := Waiting, txList := JObject [], noWeb3Open := False\<rparr>, w)"
  by (simp add: resetState_def)

lemma nextStep_eq:
  "nextStep (s, w) = (s, w\<lparr>console := console w @ [ConsoleText ''Go to next step'']\<rparr>)"
  by (simp add: nextStep_def post_increment_def console_log_def)

lemma addLogLine_eq:
  "addLogLine logLine (s, w) = (s, w\<lparr>console := console w @ [ConsoleLogLine logLine]\<rparr>)"
  by (simp add: addLogLine_def console_log_def)

lemma txComplete_eq:
  "txComplete msg txHash txCost (s, w) =
     (s\<lparr>ethSpent := Added (ethSpent s) txCost\<rparr>,
      w\<lparr>console := console w @ [ConsoleLogLine (LogTransactionResult msg txHash txCost)]\<rparr>)"
  by (simp add: txComplete_def addLogLine_eq)

lemma migrationAborted_eq:
  "migrationAborted err (s, w) =
     (s\<lparr>step := Failed\<rparr>,
      w\<lparr>console := console w @ [ConsoleLogLine (LogMigrationAborted err)],
        host := host w @ [OnAbort err, OnStop]\<rparr>)"
  by (simp add: migrationAborted_def addLogLine_eq)

lemma migrationComplete_eq:
  "migrationComplete res (s, w) =
     (s\<lparr>result := Some res, step := Completed\<rparr>,
      w\<lparr>onbeforeunload := Handler None, host := host w @ [OnComplete res, OnStop]\<rparr>)"
  by (simp add: migrationComplete_def)

text \<open>The unload handler survives \<^verbatim>\<open>migrationAborted\<close>: only \<^verbatim>\<open>migrationComplete\<close>
  replaces it.\<close>

lemma migrationAborted_onbeforeunload:
  "onbeforeunload (snd (migrationAborted err (s, w))) = onbeforeunload w"
  by (simp add: migrationAborted_eq)

subsection \<open>What an event does to the single fields\<close>

lemma fullLogLines_apply_event:
  "fullLogLines (fst (apply_event ev c)) = fullLogLines (fst c)
   \<or> fullLogLines (fst (apply_event ev c)) = []"
  by (cases ev; cases c)
     (simp_all add: operation_defs Let_def split: getWeb3_outcome.splits option.splits)

lemma minimalLogLines_apply_event:
  "minimalLogLines (fst (apply_event ev c)) = minimalLogLines (fst c)
   \<or> minimalLogLines (fst (apply_event ev c)) = []"
  by (cases ev; cases c)
     (simp_all add: operation_defs Let_def split: getWeb3_outcome.splits option.splits)

lemma log_lines_run:
  "fullLogLines (fst c) = [] \<Longrightarrow> minimalLogLines (fst c) = [] \<Longrightarrow>
   fullLogLines (fst (run evs c)) = [] \<and> minimalLogLines (fst (run evs c)) = []"
proof (induction evs arbitrary: c)
  case Nil
  then show ?case by simp
next
  case (Cons ev evs)
  from fullLogLines_apply_event [of ev c] Cons.prems
  have full: "fullLogLines (fst (apply_event ev c)) = []" by auto
  from minimalLogLines_apply_event [of ev c] Cons.prems
  have minimal: "minimalLogLines (fst (apply_event ev c)) = []" by auto
  from Cons.IH [OF full minimal] show ?case by simp
qed

text \<open>\<^verbatim>\<open>ethSpent\<close> is the sum, taken call by call from the left, of the costs reported
  so far.\<close>

lemma ethSpent_apply_event:
  "ethSpent (fst (apply_event ev c)) = foldl Added (ethSpent (fst c)) (cost_of ev)"
  by (cases ev; cases c)
     (simp_all add: operation_defs Let_def split: getWeb3_outcome.splits option.splits)

lemma ethSpent_run:
  "ethSpent (fst (run evs c)) = foldl Added (ethSpent (fst c)) (tx_costs evs)"
  by (induction evs arbitrary: c) (simp_all add: tx_costs_def ethSpent_apply_event)

lemma run_append: "run (xs @ ys) c = run ys (run xs c)"
  by (induction xs arbitrary: c) simp_all

lemma terminal_apply_event:
  "ev \<noteq> ResetState \<Longrightarrow> suspended (snd c) = [] \<or> \<not> resumes ev \<Longrightarrow>
   step (fst c) = Completed \<or> step (fst c) = Failed \<Longrightarrow>
   step (fst (apply_event ev c)) = Completed \<or> step (fst (apply_event ev c)) = Failed"
  by (cases ev; cases c)
     (auto simp add: operation_defs Let_def split: getWeb3_outcome.splits option.splits)

lemma suspended_apply_event:
  "ev \<noteq> ResetState \<Longrightarrow> suspended (snd c) = [] \<Longrightarrow>
   step (fst c) = Completed \<or> step (fst c) = Failed \<Longrightarrow>
   suspended (snd (apply_event ev c)) = []"
  by (cases ev; cases c)
     (auto simp add: operation_defs Let_def split: getWeb3_outcome.splits option.splits)

lemma terminal_run:
  "ResetState \<notin> set evs \<Longrightarrow> suspended (snd c) = [] \<Longrightarrow>
   step (fst c) = Completed \<or> step (fst c) = Failed \<Longrightarrow>
   step (fst (run evs c)) = Completed \<or> step (fst (run evs c)) = Failed"
proof (induction evs arbitrary: c)
  case Nil
  then show ?case by simp
next
  case (Cons ev evs)
  from Cons.prems have ev: "ev \<noteq> ResetState" and evs: "ResetState \<notin> set evs" by auto
  from Cons.prems(2) have none: "suspended (snd c) = [] \<or> \<not> resumes ev" by simp
  from terminal_apply_event [OF ev none Cons.prems(3)]
  have terminal: "step (fst (apply_event ev c)) = Completed
      \<or> step (fst (apply_event ev c)) = Failed" .
  from suspended_apply_event [OF ev Cons.prems(2) Cons.prems(3)]
  have empty: "suspended (snd (apply_event ev c)) = []" .
  from Cons.IH [OF evs empty terminal] show ?case by simp
qed

lemma reports_run:
  "fullLogLines (fst (run (map report_event rs) (s, w))) = fullLogLines s
   \<and> console (snd (run (map report_event rs) (s, w))) =
       console w @ map (\<lambda>r. ConsoleLogLine (report_line r)) rs"
proof (induction rs arbitrary: s w)
  case Nil
  show ?case by simp
next
  case (Cons r rs)
  show ?case
    by (cases r) (simp_all add: info_def error_def addLogLine_eq txComplete_eq Cons.IH)
qed

lemma nextStep_run:
  "step (fst (run (replicate n NextStep) (s, w))) = step s"
  by (induction n arbitrary: s w) (simp_all add: nextStep_eq)

lemmas example_defs = operation_defs Let_def initial_state_def fresh_world_def

text \<open>
  A start that is still suspended when the migration ends is resumed in a terminal step
  and sets the step to \<open>Migrating\<close>: the rest of \<^verbatim>\<open>startInstallation\<close> does not test
  the step.
\<close>

lemma late_resume_leaves_Failed:
  "step (fst (run [StartInstallation ''dao'', StartInstallation ''dao'',
                   Web3Settled 0 (Web3Resolved (Some ''web3'')),
                   MigrationAborted ''reverted'']
              (initial_state, fresh_world))) = Failed
   \<and> step (fst (run [StartInstallation ''dao'', StartInstallation ''dao'',
                   Web3Settled 0 (Web3Resolved (Some ''web3'')),
                   MigrationAborted ''reverted'',
                   Web3Settled 0 (Web3Resolved (Some ''web3''))]
              (initial_state, fresh_world))) = Migrating"
  by (simp add: example_defs)

subsection \<open>The claims\<close>

text \<open>
  C6. The callback \<^verbatim>\<open>migrationComplete(result)\<close> replaces the unload handler by one
  that returns \<^verbatim>\<open>undefined\<close>, so that the leave-page guard is off, stores the result,
  sets the step to \<open>Completed\<close> and calls \<^verbatim>\<open>onComplete(result)\<close> and then \<^verbatim>\<open>onStop()\<close>,
  and nothing else of the host.
\<close>

theorem migrationComplete_effect:
  "onbeforeunload (snd (migrationComplete res (s, w))) = Handler None
   \<and> \<not> leave_page_guard (onbeforeunload (snd (migrationComplete res (s, w))))
   \<and> result (fst (migrationComplete res (s, w))) = Some res
   \<and> step (fst (migrationComplete res (s, w))) = Completed
   \<and> host (snd (migrationComplete res (s, w))) = host w @ [OnComplete res, OnStop]"
  by (simp add: migrationComplete_eq)

text \<open>
  C10. \<^verbatim>\<open>nextStep\<close> leaves the step as it is: its updater returns the value of the
  post-increment expression, which is the old step. This holds for one call and for any
  number of calls in a row.
\<close>

theorem nextStep_keeps_step:
  "step (fst (nextStep (s, w))) = step s
   \<and> fst (post_increment (step s)) = step s
   \<and> step (fst (run (replicate n NextStep) (s, w))) = step s"
  by (simp add: nextStep_eq nextStep_run post_increment_def)

text \<open>
  C3. When \<^verbatim>\<open>getWeb3\<close> throws or resolves to a falsy value, the rest of
  \<^verbatim>\<open>startInstallation\<close> sets \<^verbatim>\<open>noWeb3Open\<close> and changes nothing else of the component,
  whatever the state is at that moment: the step stays what it is, and neither
  \<^verbatim>\<open>migrateDAO\<close> nor the host is called, nor is an unload handler installed. For a
  press in step \<open>Waiting\<close> whose promise fails next, this gives a call that sets the
  flag, leaves the step \<open>Waiting\<close> and does not call \<^verbatim>\<open>migrateDAO\<close>.
\<close>

theorem startInstallation_without_provider:
  "outcome = Web3Rejected e \<or> outcome = Web3Resolved None \<Longrightarrow>
     noWeb3Open (fst (startInstallation_resumed dao outcome (s, w)))
   \<and> step (fst (startInstallation_resumed dao outcome (s, w))) = step s
   \<and> fst (startInstallation_resumed dao outcome (s, w)) = s\<lparr>noWeb3Open := True\<rparr>
   \<and> engine (snd (startInstallation_resumed dao outcome (s, w))) = engine w
   \<and> host (snd (startInstallation_resumed dao outcome (s, w))) = host w
   \<and> onbeforeunload (snd (startInstallation_resumed dao outcome (s, w))) = onbeforeunload w
   \<and> (step s = Waiting \<longrightarrow>
        noWeb3Open (fst (run [StartInstallation dao,
                              Web3Settled (length (suspended w)) outcome] (s, w)))
      \<and> step (fst (run [StartInstallation dao,
                        Web3Settled (length (suspended w)) outcome] (s, w))) = Waiting
      \<and> fst (run [StartInstallation dao,
                  Web3Settled (length (suspended w)) outcome] (s, w)) = s\<lparr>noWeb3Open := True\<rparr>
      \<and> engine (snd (run [StartInstallation dao,
                          Web3Settled (length (suspended w)) outcome] (s, w))) = engine w
      \<and> host (snd (run [StartInstallation dao,
                        Web3Settled (length (suspended w)) outcome] (s, w))) = host w
      \<and> onbeforeunload (snd (run [StartInstallation dao,
                        Web3Settled (length (suspended w)) outcome] (s, w))) = onbeforeunload w)"
proof -
  assume failed: "outcome = Web3Rejected e \<or> outcome = Web3Resolved None"
  have call: "run [StartInstallation dao, Web3Settled (length (suspended w)) outcome] (s, w)
      = startInstallation_resumed dao outcome
          (s, w\<lparr>console := console w @ [ConsoleText ''Starting Installation'']\<rparr>)"
    if "step s = Waiting"
    using that
      resume_last [of "w\<lparr>console := console w @ [ConsoleText ''Starting Installation'']\<rparr>"
                      outcome s dao]
    by (simp add: startInstallation_Waiting)
  from failed show ?thesis
    by (auto simp add: call resumed_rejected resumed_falsy simp del: run.simps)
qed

theorem startInstallation_without_provider_witness:
  "step initial_state = Waiting
   \<and> noWeb3Open (fst (run [StartInstallation ''dao'', Web3Settled 0 (Web3Rejected ''no wallet'')]
        (initial_state, fresh_world)))
   \<and> step (fst (run [StartInstallation ''dao'', Web3Settled 0 (Web3Rejected ''no wallet'')]
        (initial_state, fresh_world))) = Waiting
   \<and> engine (snd (run [StartInstallation ''dao'', Web3Settled 0 (Web3Rejected ''no wallet'')]
        (initial_state, fresh_world))) = []"
proof -
  have waiting: "step initial_state = Waiting" by (simp add: initial_state_def)
  have fresh: "engine fresh_world = []" "length (suspended fresh_world) = 0"
    by (simp_all add: fresh_world_def)
  have "Web3Rejected ''no wallet'' = Web3Rejected ''no wallet''
        \<or> Web3Rejected ''no wallet'' = Web3Resolved None" by simp
  from startInstallation_without_provider [OF this, of "''dao''" initial_state fresh_world]
    waiting fresh
  show ?thesis by simp
qed

text \<open>
  C2. A press in a step other than \<open>Waiting\<close> is without effect (lemma
  \<open>startInstallation_not_Waiting\<close>), but the test of the step is made before the
  \<^verbatim>\<open>await\<close> only. Two presses made while the step is \<open>Waiting\<close> both pass it; when the
  two promises resolve, the first call sets the step to \<open>Migrating\<close> and calls
  \<^verbatim>\<open>migrateDAO\<close>, and the second call, resumed in step \<open>Migrating\<close>, calls \<^verbatim>\<open>onStart\<close>
  and \<^verbatim>\<open>migrateDAO\<close> again: two migrations are in flight.
\<close>

theorem second_start_resumed_while_Migrating:
  "step (fst (run [StartInstallation ''dao'', StartInstallation ''dao'',
                   Web3Settled 0 (Web3Resolved (Some ''web3''))]
              (initial_state, fresh_world))) = Migrating
   \<and> engine (snd (run [StartInstallation ''dao'', StartInstallation ''dao'',
                   Web3Settled 0 (Web3Resolved (Some ''web3''))]
              (initial_state, fresh_world))) = [''dao'']
   \<and> engine (snd (run [StartInstallation ''dao'', StartInstallation ''dao'',
                   Web3Settled 0 (Web3Resolved (Some ''web3'')),
                   Web3Settled 0 (Web3Resolved (Some ''web3''))]
              (initial_state, fresh_world))) = [''dao'', ''dao'']
   \<and> host (snd (run [StartInstallation ''dao'', StartInstallation ''dao'',
                   Web3Settled 0 (Web3Resolved (Some ''web3'')),
                   Web3Settled 0 (Web3Resolved (Some ''web3''))]
              (initial_state, fresh_world))) = [OnStart, OnStart]"
  by (simp add: example_defs)

text \<open>
  C1, as the code has it. A call of \<^verbatim>\<open>info\<close>, \<^verbatim>\<open>error\<close> or \<^verbatim>\<open>txComplete\<close> hands its
  log line to \<^verbatim>\<open>addLogLine\<close>, which writes it to the console and does not touch
  \<^verbatim>\<open>fullLogLines\<close>. So after N such calls \<^verbatim>\<open>fullLogLines\<close> is what it was before, and
  the console has received exactly N more entries: the \<^verbatim>\<open>LogInfo\<close>, \<^verbatim>\<open>LogError\<close> and
  \<^verbatim>\<open>LogTransactionResult\<close> objects of the calls, in the order of the calls.
\<close>

theorem reports_are_written_to_console:
  "fullLogLines (fst (run (map report_event rs) (s, w))) = fullLogLines s
   \<and> console (snd (run (map report_event rs) (s, w))) =
       console w @ map (\<lambda>r. ConsoleLogLine (report_line r)) rs
   \<and> length (console (snd (run (map report_event rs) (s, w)))) =
       length (console w) + length rs"
  by (simp add: reports_run)

text \<open>
  C1, as stated, fails: after three reporting callbacks on a fresh component the full
  log-line sequence is still empty, not of length three.
\<close>

theorem fullLogLines_stay_empty:
  "fullLogLines (fst (run [Info ''deploying'', Err ''retrying'',
                            TxComplete ''avatar created'' ''0xabc'' (Finite (1 / 4))]
                       (initial_state, fresh_world))) = []
   \<and> length (fullLogLines (fst (run [Info ''deploying'', Err ''retrying'',
                            TxComplete ''avatar created'' ''0xabc'' (Finite (1 / 4))]
                       (initial_state, fresh_world)))) \<noteq> 3"
  by (simp add: example_defs)

text \<open>
  C5, as the code has it. \<^verbatim>\<open>migrationAborted(error)\<close> writes a \<^verbatim>\<open>LogMigrationAborted\<close>
  line to the console, leaves \<^verbatim>\<open>fullLogLines\<close> as it is, sets the step to \<open>Failed\<close> and
  calls \<^verbatim>\<open>onAbort(error)\<close> and then \<^verbatim>\<open>onStop()\<close>, each once and nothing else of the host.
\<close>

theorem migrationAborted_effect:
  "console (snd (migrationAborted err (s, w))) =
     console w @ [ConsoleLogLine (LogMigrationAborted err)]
   \<and> fullLogLines (fst (migrationAborted err (s, w))) = fullLogLines s
   \<and> step (fst (migrationAborted err (s, w))) = Failed
   \<and> host (snd (migrationAborted err (s, w))) = host w @ [OnAbort err, OnStop]"
  by (simp add: migrationAborted_eq)

text \<open>
  C5, as stated, fails: after a successful start and an abort the full log-line sequence
  holds no \<^verbatim>\<open>LogMigrationAborted\<close> entry, and the unload handler installed by the start
  still asks before the page is left.
\<close>

theorem migrationAborted_no_log_line_guard_kept:
  "fullLogLines (fst (run [StartInstallation ''dao'',
                            Web3Settled 0 (Web3Resolved (Some ''web3'')),
                            MigrationAborted ''reverted'']
                       (initial_state, fresh_world))) = []
   \<and> leave_page_guard (onbeforeunload (snd (run
        [StartInstallation ''dao'', Web3Settled 0 (Web3Resolved (Some ''web3'')),
         MigrationAborted ''reverted'']
        (initial_state, fresh_world))))"
  by (simp add: example_defs)

text \<open>
  C7, as the code has it. The callbacks carry no check of the step. In a terminal step
  (\<open>Completed\<close> or \<open>Failed\<close>), \<^verbatim>\<open>migrationComplete\<close> sets the step to \<open>Completed\<close> and
  \<^verbatim>\<open>migrationAborted\<close> sets it to \<open>Failed\<close>, whatever it was, and each of them calls the
  host again (\<^verbatim>\<open>onComplete\<close> or \<^verbatim>\<open>onAbort\<close>, then \<^verbatim>\<open>onStop\<close>). \<^verbatim>\<open>resetState\<close> sets the
  step to \<open>Waiting\<close>. Every event that is neither \<^verbatim>\<open>resetState\<close> nor the resumption of
  a suspended start leaves the step terminal; when no start is suspended, every run
  without \<^verbatim>\<open>resetState\<close> does, a button press included.
\<close>

theorem terminal_step_transitions:
  "step s = Completed \<or> step s = Failed \<Longrightarrow>
     (ev \<noteq> ResetState \<and> (suspended w = [] \<or> \<not> resumes ev) \<longrightarrow>
        step (fst (apply_event ev (s, w))) = Completed
        \<or> step (fst (apply_event ev (s, w))) = Failed)
   \<and> (ResetState \<notin> set evs \<and> suspended w = [] \<longrightarrow>
        step (fst (run evs (s, w))) = Completed
        \<or> step (fst (run evs (s, w))) = Failed)
   \<and> step (fst (apply_event ResetState (s, w))) = Waiting
   \<and> step (fst (migrationComplete res (s, w))) = Completed
   \<and> step (fst (migrationAborted err (s, w))) = Failed
   \<and> host (snd (migrationComplete res (s, w))) = host w @ [OnComplete res, OnStop]
   \<and> host (snd (migrationAborted err (s, w))) = host w @ [OnAbort err, OnStop]"
  using terminal_apply_event [of ev "(s, w)"] terminal_run [of evs "(s, w)"]
  by (simp add: resetState_eq migrationComplete_eq migrationAborted_eq)

theorem terminal_step_transitions_witness:
  "step (fst (run [StartInstallation ''dao'', Web3Settled 0 (Web3Resolved (Some ''web3'')),
                   MigrationComplete ''deployed'']
              (initial_state, fresh_world))) = Completed
   \<and> suspended (snd (run [StartInstallation ''dao'',
                   Web3Settled 0 (Web3Resolved (Some ''web3'')),
                   MigrationComplete ''deployed'']
              (initial_state, fresh_world))) = []
   \<and> step (fst (run [StartInstallation ''dao'', Web3Settled 0 (Web3Resolved (Some ''web3'')),
                   MigrationComplete ''deployed'',
                   Info ''done'', StartInstallation ''dao'',
                   Web3Settled 0 (Web3Resolved (Some ''web3''))]
              (initial_state, fresh_world))) = Completed
   \<and> step (fst (run [StartInstallation ''dao'', Web3Settled 0 (Web3Resolved (Some ''web3'')),
                   MigrationComplete ''deployed'', ResetState]
              (initial_state, fresh_world))) = Waiting"
proof -
  let ?evs = "[StartInstallation ''dao'', Web3Settled 0 (Web3Resolved (Some ''web3'')),
               MigrationComplete ''deployed'']"
  let ?more = "[Info ''done'', StartInstallation ''dao'',
                Web3Settled 0 (Web3Resolved (Some ''web3''))]"
  let ?c = "run ?evs (initial_state, fresh_world)"
  have completed: "step (fst ?c) = Completed" by (simp add: example_defs)
  then have terminal: "step (fst ?c) = Completed \<or> step (fst ?c) = Failed" by simp
  have none: "suspended (snd ?c) = []" by (simp add: example_defs)
  have more: "run (?evs @ ?more) (initial_state, fresh_world) = run ?more (fst ?c, snd ?c)"
    and reset: "run (?evs @ [ResetState]) (initial_state, fresh_world)
              = apply_event ResetState (fst ?c, snd ?c)"
    by (simp_all only: run_append run.simps prod.collapse)
  have still: "step (fst (run ?more (fst ?c, snd ?c))) = Completed"
    by (simp add: example_defs)
  from completed none more reset still
    terminal_step_transitions [OF terminal, of "Info ''done''" "snd ?c" ?more]
  show ?thesis by simp
qed

text \<open>
  C7, as stated, fails: after a completed migration a call of \<^verbatim>\<open>migrationAborted\<close>
  moves the step from \<open>Completed\<close> to \<open>Failed\<close>, and a second call of
  \<^verbatim>\<open>migrationComplete\<close> repeats both calls of the host.
\<close>

theorem terminal_callbacks_repeat:
  "step (fst (run [StartInstallation ''dao'', Web3Settled 0 (Web3Resolved (Some ''web3'')),
                   MigrationComplete ''deployed'']
              (initial_state, fresh_world))) = Completed
   \<and> step (fst (run [StartInstallation ''dao'', Web3Settled 0 (Web3Resolved (Some ''web3'')),
                   MigrationComplete ''deployed'', MigrationAborted ''reverted'']
              (initial_state, fresh_world))) = Failed
   \<and> host (snd (run [StartInstallation ''dao'', Web3Settled 0 (Web3Resolved (Some ''web3'')),
                   MigrationComplete ''deployed'', MigrationComplete ''deployed'']
              (initial_state, fresh_world)))
     = [OnStart, OnComplete ''deployed'', OnStop, OnComplete ''deployed'', OnStop]"
  by (simp add: example_defs)

text \<open>
  C8. When \<^verbatim>\<open>JSON.parse\<close> gives a blob back from its \<^verbatim>\<open>JSON.stringify\<close> text and that
  text is not empty (which is what being serializable to JSON means for the blob),
  \<^verbatim>\<open>getState\<close> after \<^verbatim>\<open>setState(blob)\<close> returns the blob. After \<^verbatim>\<open>cleanState\<close>,
  \<^verbatim>\<open>getState\<close> returns the empty object.
\<close>

theorem checkpoint_roundtrip:
  "(JSON_parse w (JSON_stringify w blob) = Inr blob \<and> JSON_stringify w blob \<noteq> [] \<longrightarrow>
      getState (setState blob (s, w)) = Inr blob)
   \<and> getState (cleanState (s, w)) = Inr (JObject [])"
  by (simp add: getState_def setState_def cleanState_def)

theorem checkpoint_roundtrip_witness:
  "JSON_parse fresh_world (JSON_stringify fresh_world (JArray [JNumber 1, JNumber 2]))
     = Inr (JArray [JNumber 1, JNumber 2])
   \<and> JSON_stringify fresh_world (JArray [JNumber 1, JNumber 2]) \<noteq> []
   \<and> getState (setState (JArray [JNumber 1, JNumber 2]) (initial_state, fresh_world))
     = Inr (JArray [JNumber 1, JNumber 2])
   \<and> getState (cleanState (setState (JArray [JNumber 1, JNumber 2])
        (initial_state, fresh_world))) = Inr (JObject [])"
proof -
  let ?blob = "JArray [JNumber 1, JNumber 2]"
  have printed: "JSON_stringify fresh_world ?blob = ''[1,2]''"
    and parsed: "JSON_parse fresh_world ''[1,2]'' = Inr ?blob"
    by (simp_all add: fresh_world_def)
  have stored: "setState ?blob (initial_state, fresh_world)
      = (fst (setState ?blob (initial_state, fresh_world)),
         snd (setState ?blob (initial_state, fresh_world)))"
    by simp
  from printed parsed
    checkpoint_roundtrip [of fresh_world ?blob initial_state]
    checkpoint_roundtrip [of "snd (setState ?blob (initial_state, fresh_world))" ?blob
                             "fst (setState ?blob (initial_state, fresh_world))"]
  show ?thesis by (simp add: stored [symmetric])
qed

text \<open>
  C9. In every state that the component reaches from its initial state, by any run of
  events in any world, \<^verbatim>\<open>resetState\<close> gives a state whose step is \<open>Waiting\<close>, whose log
  lines (full and minimal) are empty and whose \<^verbatim>\<open>noWeb3Open\<close> flag is off, and it leaves
  the storage, and with it the checkpoint that \<^verbatim>\<open>getState\<close> reads, as it is.
\<close>

theorem resetState_effect:
  "step (fst (resetState (run evs (initial_state, w)))) = Waiting
   \<and> fullLogLines (fst (resetState (run evs (initial_state, w)))) = []
   \<and> minimalLogLines (fst (resetState (run evs (initial_state, w)))) = []
   \<and> noWeb3Open (fst (resetState (run evs (initial_state, w)))) = False
   \<and> localStorage (snd (resetState (run evs (initial_state, w))))
       = localStorage (snd (run evs (initial_state, w)))
   \<and> getState (resetState (run evs (initial_state, w))) = getState (run evs (initial_state, w))"
proof -
  obtain s' w' where c: "run evs (initial_state, w) = (s', w')"
    by (cases "run evs (initial_state, w)")
  have "fullLogLines (fst (run evs (initial_state, w))) = []
      \<and> minimalLogLines (fst (run evs (initial_state, w))) = []"
    by (rule log_lines_run) (simp_all add: initial_state_def)
  with c have "fullLogLines s' = []" "minimalLogLines s' = []" by simp_all
  with c show ?thesis by (simp add: resetState_eq getState_def)
qed

end
